theory Spec2Isabelle
  imports Main "HOL-Library.Word"
begin

text \<open>
  A model of \<^verbatim>\<open>server.js\<close>: the two in-memory stores and the four handlers
  \<^verbatim>\<open>/api/signup\<close>, \<^verbatim>\<open>/api/login\<close>, \<^verbatim>\<open>/api/me\<close> and \<^verbatim>\<open>/api/logout\<close>. A handler is a
  function from the request and the stores to the response and the new stores.
  \<^verbatim>\<open>/api/signup\<close> and \<^verbatim>\<open>/api/login\<close> are suspended once, at their \<^verbatim>\<open>await\<close>, and
  are given in two parts, so that other requests can be handled in between. What
  \<^verbatim>\<open>console.log\<close> and \<^verbatim>\<open>console.error\<close> print is left out, as are the static files and
  the CORS headers.
\<close>

section \<open>JavaScript values used by \<^verbatim>\<open>server.js\<close>\<close>

text \<open>
  A JavaScript string is a sequence of UTF-16 code units; \<^verbatim>\<open>length\<close> counts code
  units and a regular expression without the \<^verbatim>\<open>u\<close> flag matches code units.
  String constants of the source that only travel inside a response (\<^verbatim>\<open>'Invalid email'\<close>,
  \<^verbatim>\<open>'email'\<close>, ...) are kept as HOL strings.
\<close>

type_synonym code_unit = "16 word"
type_synonym js_string = "code_unit list"

definition js :: "string \<Rightarrow> js_string" where
  "js s = map (\<lambda>c. of_nat (of_char c)) s"

text \<open>
  The cookie \<^verbatim>\<open>req.cookies.sid\<close> is \<^verbatim>\<open>undefined\<close> (\<open>None\<close>) or a string. \<^verbatim>\<open>!v\<close> holds
  for \<^verbatim>\<open>undefined\<close> and for the empty string.
\<close>

fun falsy :: "js_string option \<Rightarrow> bool" where
  "falsy None = True"
| "falsy (Some s) = (s = [])"

subsection \<open>The regular expression \<^verbatim>\<open>/^\S+@\S+\.\S+$/\<close>\<close>

text \<open>
  \<^verbatim>\<open>\s\<close> is ECMAScript's WhiteSpace and LineTerminator: TAB, LF, VT, FF, CR, SP, NBSP,
  U+1680, U+2000..U+200A, U+2028, U+2029, U+202F, U+205F, U+3000 and U+FEFF.
\<close>

definition is_space :: "code_unit \<Rightarrow> bool" where
  "is_space c \<longleftrightarrow>
     c = 0x09 \<or> c = 0x0A \<or> c = 0x0B \<or> c = 0x0C \<or> c = 0x0D \<or> c = 0x20 \<or> c = 0xA0 \<or>
     c = 0x1680 \<or> (0x2000 \<le> c \<and> c \<le> 0x200A) \<or> c = 0x2028 \<or> c = 0x2029 \<or>
     c = 0x202F \<or> c = 0x205F \<or> c = 0x3000 \<or> c = 0xFEFF"

datatype atom = Lit code_unit | NonSpace

datatype item = Once atom | Plus atom

fun atom_ok :: "atom \<Rightarrow> code_unit \<Rightarrow> bool" where
  "atom_ok (Lit a) c = (c = a)"
| "atom_ok NonSpace c = (\<not> is_space c)"

text \<open>
  A pattern between \<^verbatim>\<open>^\<close> and \<^verbatim>\<open>$\<close> is a list of items, each an atom or an atom
  under \<^verbatim>\<open>+\<close>. \<open>matches\<close> is the backtracking matcher: \<^verbatim>\<open>+\<close> first tries to take
  one more code unit and otherwise goes on with the rest of the pattern; the empty
  pattern is the anchor \<^verbatim>\<open>$\<close>.
\<close>

fun matches :: "item list \<Rightarrow> js_string \<Rightarrow> bool" where
  "matches [] s = (s = [])"
| "matches (Once a # p) [] = False"
| "matches (Once a # p) (c # s) = (atom_ok a c \<and> matches p s)"
| "matches (Plus a # p) [] = False"
| "matches (Plus a # p) (c # s) = (atom_ok a c \<and> (matches (Plus a # p) s \<or> matches p s))"

definition email_re :: "item list" where
  "email_re = [Plus NonSpace, Once (Lit 0x40), Plus NonSpace, Once (Lit 0x2E), Plus NonSpace]"

definition test :: "item list \<Rightarrow> js_string \<Rightarrow> bool" where
  "test re s = matches re s"

subsection \<open>\<^verbatim>\<open>Number.prototype.toString()\<close> on a non-negative integer\<close>

fun toString :: "nat \<Rightarrow> js_string" where
  "toString n = (if n < 10 then [of_nat (48 + n)]
                 else toString (n div 10) @ [of_nat (48 + n mod 10)])"

declare toString.simps [simp del]

subsection \<open>JSON values\<close>

text \<open>
  \<^verbatim>\<open>bodyParser.json()\<close> hands the handlers whatever JSON the client sent, so the
  properties \<^verbatim>\<open>email\<close> and \<^verbatim>\<open>password\<close> of a body can be \<^verbatim>\<open>null\<close>, a boolean, a
  number, a string, an array or an object. \<open>Num n\<close> is a number whose value is the
  integer \<open>n\<close> (of magnitude at most \<open>2 ^ 53\<close>, which a double holds exactly and prints in
  decimal). \<open>Obj\<close> is an object that has no own property named \<^verbatim>\<open>length\<close> or
  \<^verbatim>\<open>toString\<close>; the handlers read no other property of a value, so its properties
  are not kept. Fractional numbers and objects with one of these two properties are
  outside the model.
\<close>

datatype js_value = Null | Bool bool | Num int | Str js_string | Arr "js_value list" | Obj

text \<open>\<^verbatim>\<open>ToBoolean\<close>, and \<^verbatim>\<open>!v\<close> for a property that may be missing.\<close>

fun to_boolean :: "js_value \<Rightarrow> bool" where
  "to_boolean Null = False"
| "to_boolean (Bool b) = b"
| "to_boolean (Num n) = (n \<noteq> 0)"
| "to_boolean (Str s) = (s \<noteq> [])"
| "to_boolean (Arr xs) = True"
| "to_boolean Obj = True"

fun falsy_value :: "js_value option \<Rightarrow> bool" where
  "falsy_value None = True"
| "falsy_value (Some v) = (\<not> to_boolean v)"

text \<open>
  \<^verbatim>\<open>ToString\<close>, which \<^verbatim>\<open>RegExp.prototype.test\<close> applies to its argument and a property
  access \<^verbatim>\<open>users[email]\<close> to its key. An array is joined with commas, \<^verbatim>\<open>null\<close>
  elements giving the empty string; an object prints as \<^verbatim>\<open>[object Object]\<close>.
\<close>

fun to_string :: "js_value \<Rightarrow> js_string"
  and element :: "js_value \<Rightarrow> js_string"
  and array_join :: "js_value list \<Rightarrow> js_string" where
  "to_string Null = js ''null''"
| "to_string (Bool b) = (if b then js ''true'' else js ''false'')"
| "to_string (Num n) = (if n < 0 then 0x2D # toString (nat (- n)) else toString (nat n))"
| "to_string (Str s) = s"
| "to_string (Arr xs) = array_join xs"
| "to_string Obj = js ''[object Object]''"
| "element v = (case v of Null \<Rightarrow> [] | _ \<Rightarrow> to_string v)"
| "array_join [] = []"
| "array_join [x] = element x"
| "array_join (x # y # ys) = element x @ 0x2C # array_join (y # ys)"

text \<open>
  \<^verbatim>\<open>v.length\<close> for a value that is not \<^verbatim>\<open>null\<close>: the number of code units of a string,
  the number of elements of an array, and \<^verbatim>\<open>undefined\<close> (\<open>None\<close>) for a boolean, a
  number and an object. \<^verbatim>\<open>v.length < n\<close> is false when \<^verbatim>\<open>v.length\<close> is \<^verbatim>\<open>undefined\<close>.
\<close>

fun length_of :: "js_value \<Rightarrow> nat option" where
  "length_of (Str s) = Some (length s)"
| "length_of (Arr xs) = Some (length xs)"
| "length_of v = None"

definition length_less :: "js_value \<Rightarrow> nat \<Rightarrow> bool" where
  "length_less v n = (case length_of v of None \<Rightarrow> False | Some l \<Rightarrow> l < n)"

section \<open>The stores\<close>

text \<open>
  \<^verbatim>\<open>users: { email: { id, email, passwordHash, createdAt } }\<close> and
  \<^verbatim>\<open>sessions: { sid: email }\<close>, both created by \<^verbatim>\<open>Object.create(null)\<close>: objects
  without a prototype, so every key is an own property and a lookup of a key that was
  never stored is \<^verbatim>\<open>undefined\<close>. A key is a string; the \<^verbatim>\<open>email\<close> of an account and
  the value of a session are the value the client sent.
\<close>

record account =
  id_acc :: js_string
  email :: js_value
  passwordHash :: js_string
  createdAt :: js_string

record state =
  users :: "js_string \<rightharpoonup> account"
  sessions :: "js_string \<rightharpoonup> js_value"

definition init_state :: state where
  "init_state = \<lparr>users = Map.empty, sessions = Map.empty\<rparr>"

section \<open>What the handlers read from outside\<close>

text \<open>
  The \<^verbatim>\<open>bcrypt\<close> package is a library, not code of the server: the handlers take it
  as a parameter. \<open>bcrypt_hash lib data rounds salt\<close> is \<^verbatim>\<open>bcrypt.hash(data, rounds)\<close>
  for a string \<open>data\<close>, with the salt the library draws, and
  \<open>bcrypt_compare lib data encrypted\<close> is \<^verbatim>\<open>bcrypt.compare(data, encrypted)\<close>; \<open>None\<close> is
  a rejected promise, which the handlers catch. Both functions reject data that is not a
  string (or a Buffer, which JSON cannot give): \<open>hash_value\<close> and \<open>compare_value\<close> are
  the calls on the value a body holds.
\<close>

record bcrypt =
  bcrypt_hash :: "js_string \<Rightarrow> nat \<Rightarrow> js_string \<Rightarrow> js_string option"
  bcrypt_compare :: "js_string \<Rightarrow> js_string \<Rightarrow> bool option"

fun hash_value :: "bcrypt \<Rightarrow> js_value \<Rightarrow> nat \<Rightarrow> js_string \<Rightarrow> js_string option" where
  "hash_value lib (Str d) rounds s = bcrypt_hash lib d rounds s"
| "hash_value lib v rounds s = None"

fun compare_value :: "bcrypt \<Rightarrow> js_value \<Rightarrow> js_string \<Rightarrow> bool option" where
  "compare_value lib (Str d) h = bcrypt_compare lib d h"
| "compare_value lib v h = None"

text \<open>
  The clock and the random sources read while one request is handled:
  \<^verbatim>\<open>Date.now()\<close>, a number of milliseconds since 1970; \<^verbatim>\<open>new Date().toISOString()\<close>;
  the value of \<^verbatim>\<open>Math.random()\<close>, a double, given by its 64 bits; and the salt drawn by
  \<^verbatim>\<open>bcrypt.hash\<close>. \<open>radix36\<close> is \<^verbatim>\<open>Number.prototype.toString(36)\<close> on a double, which
  ECMAScript leaves to the engine.
\<close>

record env =
  date_now :: nat
  iso_string :: js_string
  math_random :: "64 word"
  radix36 :: "64 word \<Rightarrow> js_string"
  salt :: js_string

text \<open>
  \<^verbatim>\<open>function createSid() { return 's' + Math.random().toString(36).slice(2); }\<close>:
  \<open>createSid_of print r\<close> is the session id made from the value \<open>r\<close> of
  \<^verbatim>\<open>Math.random()\<close> by an engine that prints numbers with \<open>print\<close>.
\<close>

definition createSid_of :: "(64 word \<Rightarrow> js_string) \<Rightarrow> 64 word \<Rightarrow> js_string" where
  "createSid_of print r = 0x73 # drop 2 (print r)"

definition createSid :: "env \<Rightarrow> js_string" where
  "createSid e = createSid_of (radix36 e) (math_random e)"

section \<open>Requests and responses\<close>

text \<open>
  \<open>Body email password\<close> is a parsed JSON body with its two properties, each missing
  (\<open>None\<close>) or a JSON value; the handlers read nothing else of a body. A request without a
  body has \<^verbatim>\<open>req.body\<close> undefined (\<open>None\<close>).

  A response is the status, the JSON object sent and what happens to the cookie
  \<^verbatim>\<open>sid\<close>. The JSON objects of the source are
  \<^verbatim>\<open>{ ok:false, field, message }\<close> (\<open>Failure\<close>, the field missing in some),
  \<^verbatim>\<open>{ ok:true, redirect }\<close> (\<open>Redirect\<close>), \<^verbatim>\<open>{ ok:true, email, id }\<close> (\<open>Identity\<close>) and
  \<^verbatim>\<open>{ ok:true }\<close> (\<open>Ok\<close>).
\<close>

datatype body = Body "js_value option" "js_value option"

datatype json =
  Failure "string option" string
| Redirect string
| Identity js_value js_string
| Ok

datatype cookie_op = Keep | SetSid js_string | ClearSid

record response =
  status :: nat
  json_body :: json
  cookie :: cookie_op

definition fail :: "nat \<Rightarrow> string option \<Rightarrow> string \<Rightarrow> response" where
  "fail code fld msg = \<lparr>status = code, json_body = Failure fld msg, cookie = Keep\<rparr>"

fun destructure :: "body option \<Rightarrow> js_value option \<times> js_value option" where
  "destructure None = (None, None)"
| "destructure (Some (Body e p)) = (e, p)"

text \<open>The body \<^verbatim>\<open>{ email, password }\<close> of two strings.\<close>

definition body_of :: "js_string \<Rightarrow> js_string \<Rightarrow> body option" where
  "body_of em pw = Some (Body (Some (Str em)) (Some (Str pw)))"

section \<open>The handlers\<close>

text \<open>
  The handlers follow the source line by line. \<open>the\<close> is only applied behind the
  \<open>falsy\<close> test that the source makes first, as \<^verbatim>\<open>||\<close> does not evaluate its right
  side when the left one holds.

  \<^verbatim>\<open>/api/signup\<close> runs from its first line to \<^verbatim>\<open>await bcrypt.hash(password, 12)\<close>
  (\<open>signup_begin\<close>: it has answered, or it waits with the email and the password it
  read) and later from there to its response (\<open>signup_end\<close>, on the stores as they are
  then). \<open>signup\<close> is the handler when nothing else runs in between. The only call that
  can throw inside \<^verbatim>\<open>try\<close> is \<^verbatim>\<open>bcrypt.hash\<close>, before anything is stored.
\<close>

datatype 'a started = Responds response | Awaits 'a

definition signup_begin :: "body option \<Rightarrow> state \<Rightarrow> (js_value \<times> js_value) started" where
  "signup_begin req_body st =
     (case destructure req_body of (em, pw) \<Rightarrow>
        if falsy_value em \<or> \<not> test email_re (to_string (the em))
        then Responds (fail 400 (Some ''email'') ''Invalid email'')
        else if falsy_value pw \<or> length_less (the pw) 8
        then Responds (fail 400 (Some ''password'') ''Password too short'')
        else if users st (to_string (the em)) \<noteq> None
        then Responds (fail 409 (Some ''email'') ''Email already registered'')
        else Awaits (the em, the pw))"

definition signup_end :: "bcrypt \<Rightarrow> env \<Rightarrow> js_value \<Rightarrow> js_value \<Rightarrow> state \<Rightarrow> response \<times> state" where
  "signup_end lib e em pw st =
     (case hash_value lib pw 12 (salt e) of
        None \<Rightarrow> (fail 500 None ''Server error'', st)
      | Some hash \<Rightarrow>
          let st1 = st\<lparr>users := (users st)(to_string em \<mapsto>
                       \<lparr>id_acc = toString (date_now e), email = em,
                        passwordHash = hash, createdAt = iso_string e\<rparr>)\<rparr>;
              sid = createSid e;
              st2 = st1\<lparr>sessions := (sessions st1)(sid \<mapsto> em)\<rparr>
          in (\<lparr>status = 200, json_body = Redirect ''/dashboard.html'',
               cookie = SetSid sid\<rparr>, st2))"

definition signup :: "bcrypt \<Rightarrow> env \<Rightarrow> body option \<Rightarrow> state \<Rightarrow> response \<times> state" where
  "signup lib e req_body st =
     (case signup_begin req_body st of
        Responds r \<Rightarrow> (r, st)
      | Awaits (em, pw) \<Rightarrow> signup_end lib e em pw st)"

text \<open>
  \<^verbatim>\<open>/api/login\<close> reads the account before
  \<^verbatim>\<open>await bcrypt.compare(password, user.passwordHash)\<close> and writes the session after it.
\<close>

definition login_begin :: "body option \<Rightarrow> state \<Rightarrow> (js_value \<times> js_value \<times> account) started" where
  "login_begin req_body st =
     (case destructure req_body of (em, pw) \<Rightarrow>
        if falsy_value em \<or> falsy_value pw
        then Responds (fail 400 None ''Missing fields'')
        else
          (case users st (to_string (the em)) of
             None \<Rightarrow> Responds (fail 401 (Some ''email'') ''Invalid credentials'')
           | Some user \<Rightarrow> Awaits (the em, the pw, user)))"

definition login_end ::
  "bcrypt \<Rightarrow> env \<Rightarrow> js_value \<Rightarrow> js_value \<Rightarrow> account \<Rightarrow> state \<Rightarrow> response \<times> state" where
  "login_end lib e em pw user st =
     (case compare_value lib pw (passwordHash user) of
        None \<Rightarrow> (fail 500 None ''Server error'', st)
      | Some ok \<Rightarrow>
          if \<not> ok
          then (fail 401 (Some ''password'') ''Invalid credentials'', st)
          else
            let sid = createSid e;
                st1 = st\<lparr>sessions := (sessions st)(sid \<mapsto> em)\<rparr>
            in (\<lparr>status = 200, json_body = Redirect ''/dashboard.html'',
                 cookie = SetSid sid\<rparr>, st1))"

definition login :: "bcrypt \<Rightarrow> env \<Rightarrow> body option \<Rightarrow> state \<Rightarrow> response \<times> state" where
  "login lib e req_body st =
     (case login_begin req_body st of
        Responds r \<Rightarrow> (r, st)
      | Awaits (em, pw, user) \<Rightarrow> login_end lib e em pw user st)"

definition me :: "js_string option \<Rightarrow> state \<Rightarrow> response \<times> state" where
  "me sid st =
     (if falsy sid \<or> falsy_value (sessions st (the sid))
      then (fail 401 None ''Not authenticated'', st)
      else
        (case users st (to_string (the (sessions st (the sid)))) of
           None \<Rightarrow> (fail 401 None ''Not authenticated'', st)
         | Some user \<Rightarrow>
             (\<lparr>status = 200, json_body = Identity (email user) (id_acc user),
               cookie = Keep\<rparr>, st)))"

definition logout :: "js_string option \<Rightarrow> state \<Rightarrow> response \<times> state" where
  "logout sid st =
     (if \<not> falsy sid
      then (\<lparr>status = 200, json_body = Ok, cookie = ClearSid\<rparr>,
            st\<lparr>sessions := (sessions st)(the sid := None)\<rparr>)
      else (\<lparr>status = 200, json_body = Ok, cookie = Keep\<rparr>, st))"

section \<open>The server over time\<close>

datatype request =
  Signup env "body option"
| Login env "body option"
| Me "js_string option"
| Logout "js_string option"

text \<open>\<open>handle lib r st\<close> handles one request with nothing else in between.\<close>

fun handle :: "bcrypt \<Rightarrow> request \<Rightarrow> state \<Rightarrow> response \<times> state" where
  "handle lib (Signup e b) st = signup lib e b st"
| "handle lib (Login e b) st = login lib e b st"
| "handle lib (Me sid) st = me sid st"
| "handle lib (Logout sid) st = logout sid st"

text \<open>
  The server holds the two stores and the handlers that wait at their \<^verbatim>\<open>await\<close>, each
  with the variables it has read. Two things happen: a request arrives and its handler
  runs until it has answered or waits; or one of the waiting handlers goes on to its
  response (the clock and random values of its request are read then). \<open>run\<close> lets a list
  of these happen, in any order; the states the server can be in are
  \<open>run lib evs init_server\<close>.
\<close>

datatype waiting =
  SignupWaiting env js_value js_value
| LoginWaiting env js_value js_value account

record server =
  stores :: state
  pending :: "waiting list"

definition init_server :: server where
  "init_server = \<lparr>stores = init_state, pending = []\<rparr>"

datatype event = Arrives request | Resumes nat

fun arrive :: "request \<Rightarrow> server \<Rightarrow> server" where
  "arrive (Signup e b) sv =
     (case signup_begin b (stores sv) of
        Responds r \<Rightarrow> sv
      | Awaits (em, pw) \<Rightarrow> sv\<lparr>pending := pending sv @ [SignupWaiting e em pw]\<rparr>)"
| "arrive (Login e b) sv =
     (case login_begin b (stores sv) of
        Responds r \<Rightarrow> sv
      | Awaits (em, pw, user) \<Rightarrow> sv\<lparr>pending := pending sv @ [LoginWaiting e em pw user]\<rparr>)"
| "arrive (Me sid) sv = sv\<lparr>stores := snd (me sid (stores sv))\<rparr>"
| "arrive (Logout sid) sv = sv\<lparr>stores := snd (logout sid (stores sv))\<rparr>"

fun resume :: "bcrypt \<Rightarrow> waiting \<Rightarrow> state \<Rightarrow> response \<times> state" where
  "resume lib (SignupWaiting e em pw) st = signup_end lib e em pw st"
| "resume lib (LoginWaiting e em pw user) st = login_end lib e em pw user st"

fun step :: "bcrypt \<Rightarrow> event \<Rightarrow> server \<Rightarrow> server" where
  "step lib (Arrives r) sv = arrive r sv"
| "step lib (Resumes i) sv =
     (if i < length (pending sv)
      then \<lparr>stores = snd (resume lib (pending sv ! i) (stores sv)),
            pending = take i (pending sv) @ drop (Suc i) (pending sv)\<rparr>
      else sv)"

fun run :: "bcrypt \<Rightarrow> event list \<Rightarrow> server \<Rightarrow> server" where
  "run lib [] sv = sv"
| "run lib (ev # evs) sv = run lib evs (step lib ev sv)"

section \<open>Notions of the specification that the source does not define\<close>

text \<open>
  The specification keys accounts by a \<^emph>\<open>normalized\<close> email and names letter case as what
  normalization removes; \<^verbatim>\<open>server.js\<close> has no such function. \<open>spec_normalize\<close> is the
  specification's notion, written from its words: the letters A..Z folded to lower case.
\<close>

definition spec_normalize :: "js_string \<Rightarrow> js_string" where
  "spec_normalize s = map (\<lambda>c. if 0x41 \<le> c \<and> c \<le> 0x5A then c + 0x20 else c) s"

section \<open>Concrete inputs\<close>

text \<open>
  A small stand-in for the library, on which the theorems below are instantiated: the
  hash is a salt of ten code units followed by the data, and a comparison accepts
  exactly the data that follows the salt. \<open>stub_radix36\<close> prints the doubles 0.5 and
  0.25 as an engine does, \<^verbatim>\<open>0.i\<close> and \<^verbatim>\<open>0.9\<close>.
\<close>

definition stub_bcrypt :: bcrypt where
  "stub_bcrypt =
     \<lparr>bcrypt_hash = (\<lambda>d r s. Some (take 10 (s @ replicate 10 0x2E) @ d)),
      bcrypt_compare = (\<lambda>d h. Some (drop 10 h = d))\<rparr>"

definition stub_radix36 :: "64 word \<Rightarrow> js_string" where
  "stub_radix36 r =
     (if r = 0x3FE0000000000000 then js ''0.i''
      else if r = 0x3FD0000000000000 then js ''0.9''
      else js ''0'')"

definition env1 :: env where
  "env1 = \<lparr>date_now = 1700000000000, iso_string = js ''2023-11-14T22:13:20.000Z'',
            math_random = 0x3FE0000000000000, radix36 = stub_radix36,
            salt = js ''$2b$12$abc''\<rparr>"

definition env2 :: env where
  "env2 = \<lparr>date_now = 1700000000500, iso_string = js ''2023-11-14T22:13:20.500Z'',
            math_random = 0x3FD0000000000000, radix36 = stub_radix36,
            salt = js ''$2b$12$xyz''\<rparr>"

definition credentials :: "string \<Rightarrow> string \<Rightarrow> body option" where
  "credentials em pw = body_of (js em) (js pw)"

definition one_user :: state where
  "one_user = snd (signup stub_bcrypt env1 (credentials ''a@b.com'' ''longpassword'') init_state)"

definition overlapping :: server where
  "overlapping = run stub_bcrypt
     [Arrives (Signup env1 (credentials ''a@b.com'' ''longpassword'')),
      Arrives (Signup env2 (credentials ''a@b.com'' ''otherpassword'')),
      Resumes 0, Resumes 0] init_server"

definition case_variants :: server where
  "case_variants = run stub_bcrypt
     [Arrives (Signup env1 (credentials ''A@b.com'' ''longpassword'')), Resumes 0,
      Arrives (Signup env2 (credentials ''a@b.com'' ''longpassword'')), Resumes 0] init_server"

section \<open>What the regular expression accepts\<close>

text \<open>
  The matcher agrees with the reading of the pattern as a language: an item under
  \<^verbatim>\<open>+\<close> takes a non-empty run of code units of its class, and the email pattern accepts
  exactly the strings without white space that split into three non-empty parts around
  an \<^verbatim>\<open>@\<close> and a later dot.
\<close>

lemma matches_Once:
  "matches (Once a # p) s \<longleftrightarrow> (\<exists>c v. s = c # v \<and> atom_ok a c \<and> matches p v)"
  by (cases s) simp_all

lemma matches_Plus:
  "matches (Plus a # p) s \<longleftrightarrow>
     (\<exists>u v. s = u @ v \<and> u \<noteq> [] \<and> (\<forall>c \<in> set u. atom_ok a c) \<and> matches p v)"
proof (induction s)
  case Nil
  show ?case by simp
next
  case (Cons c s)
  show ?case
  proof
    assume "matches (Plus a # p) (c # s)"
    then have c: "atom_ok a c" and alt: "matches (Plus a # p) s \<or> matches p s" by simp_all
    from alt show "\<exists>u v. c # s = u @ v \<and> u \<noteq> [] \<and> (\<forall>c \<in> set u. atom_ok a c) \<and> matches p v"
    proof
      assume "matches (Plus a # p) s"
      with Cons.IH obtain u v where "s = u @ v" "\<forall>c \<in> set u. atom_ok a c" "matches p v"
        by blast
      with c have "c # s = (c # u) @ v \<and> c # u \<noteq> [] \<and> (\<forall>x \<in> set (c # u). atom_ok a x) \<and> matches p v"
        by simp
      then show ?thesis by blast
    next
      assume "matches p s"
      with c have "c # s = [c] @ s \<and> [c] \<noteq> [] \<and> (\<forall>x \<in> set [c]. atom_ok a x) \<and> matches p s"
        by simp
      then show ?thesis by blast
    qed
  next
    assume "\<exists>u v. c # s = u @ v \<and> u \<noteq> [] \<and> (\<forall>c \<in> set u. atom_ok a c) \<and> matches p v"
    then obtain u v where uv: "c # s = u @ v" "u \<noteq> []" "\<forall>c \<in> set u. atom_ok a c" "matches p v"
      by blast
    then obtain u' where u: "u = c # u'" "s = u' @ v"
      by (cases u) auto
    show "matches (Plus a # p) (c # s)"
    proof (cases "u' = []")
      case True
      with u uv show ?thesis by simp
    next
      case False
      with u uv have "matches (Plus a # p) s" using Cons.IH by auto
      with u uv show ?thesis by simp
    qed
  qed
qed

lemma matches_PlusI:
  "u \<noteq> [] \<Longrightarrow> \<forall>c \<in> set u. atom_ok a c \<Longrightarrow> matches p v \<Longrightarrow> matches (Plus a # p) (u @ v)"
  unfolding matches_Plus by blast

lemma email_re_shape:
  "test email_re s \<longleftrightarrow>
     (\<exists>u v w. s = u @ [0x40] @ v @ [0x2E] @ w \<and> u \<noteq> [] \<and> v \<noteq> [] \<and> w \<noteq> [] \<and>
        (\<forall>c \<in> set s. \<not> is_space c))"
  (is "?L \<longleftrightarrow> ?R")
proof
  assume ?L
  then obtain u r1 where 1: "s = u @ r1" "u \<noteq> []" "\<forall>c \<in> set u. \<not> is_space c"
      "matches [Once (Lit 0x40), Plus NonSpace, Once (Lit 0x2E), Plus NonSpace] r1"
    unfolding test_def email_re_def matches_Plus [of NonSpace] by auto
  from 1(4) obtain r2 where 2: "r1 = 0x40 # r2"
      "matches [Plus NonSpace, Once (Lit 0x2E), Plus NonSpace] r2"
    unfolding matches_Once by auto
  from 2(2) obtain v r3 where 3: "r2 = v @ r3" "v \<noteq> []" "\<forall>c \<in> set v. \<not> is_space c"
      "matches [Once (Lit 0x2E), Plus NonSpace] r3"
    unfolding matches_Plus [of NonSpace] by auto
  from 3(4) obtain r4 where 4: "r3 = 0x2E # r4" "matches [Plus NonSpace] r4"
    unfolding matches_Once by auto
  from 4(2) have 5: "r4 \<noteq> []" "\<forall>c \<in> set r4. \<not> is_space c"
    unfolding matches_Plus [of NonSpace] by auto
  have "\<not> is_space 0x40" "\<not> is_space 0x2E" by (simp_all add: is_space_def)
  with 1 2 3 4 5 have "s = u @ [0x40] @ v @ [0x2E] @ r4 \<and> u \<noteq> [] \<and> v \<noteq> [] \<and> r4 \<noteq> [] \<and>
        (\<forall>c \<in> set s. \<not> is_space c)" by auto
  then show ?R by blast
next
  assume ?R
  then obtain u v w where s: "s = u @ [0x40] @ v @ [0x2E] @ w" "u \<noteq> []" "v \<noteq> []" "w \<noteq> []"
    "\<forall>c \<in> set s. \<not> is_space c" by blast
  from s have ns: "\<forall>c \<in> set u. atom_ok NonSpace c" "\<forall>c \<in> set v. atom_ok NonSpace c"
    "\<forall>c \<in> set w. atom_ok NonSpace c" by auto
  have "matches [] []" by simp
  from matches_PlusI [OF s(4) ns(3) this] have "matches [Plus NonSpace] w" by simp
  then have "matches [Once (Lit 0x2E), Plus NonSpace] (0x2E # w)" by simp
  from matches_PlusI [OF s(3) ns(2) this]
  have "matches [Once (Lit 0x40), Plus NonSpace, Once (Lit 0x2E), Plus NonSpace]
      (0x40 # v @ 0x2E # w)" by simp
  from matches_PlusI [OF s(2) ns(1) this]
  have "matches [Plus NonSpace, Once (Lit 0x40), Plus NonSpace, Once (Lit 0x2E), Plus NonSpace]
      (u @ 0x40 # v @ 0x2E # w)" .
  then show ?L by (simp add: test_def email_re_def s)
qed

section \<open>The branches of the handlers\<close>

lemma test_empty: "\<not> test email_re []"
  by (simp add: test_def email_re_def)

lemma me_state: "snd (me sid st) = st"
  by (simp add: me_def split: option.splits)

lemma logout_users: "users (snd (logout sid st)) = users st"
  by (simp add: logout_def)

lemma signup_begin_email:
  "falsy_value em \<or> \<not> test email_re (to_string (the em)) \<Longrightarrow>
   signup_begin (Some (Body em pw)) st = Responds (fail 400 (Some ''email'') ''Invalid email'')"
  by (simp add: signup_begin_def)

lemma signup_begin_password:
  "\<not> (falsy_value em \<or> \<not> test email_re (to_string (the em))) \<Longrightarrow>
   falsy_value pw \<or> length_less (the pw) 8 \<Longrightarrow>
   signup_begin (Some (Body em pw)) st =
     Responds (fail 400 (Some ''password'') ''Password too short'')"
  by (simp add: signup_begin_def)

lemma signup_begin_conflict:
  "\<not> (falsy_value em \<or> \<not> test email_re (to_string (the em))) \<Longrightarrow>
   \<not> (falsy_value pw \<or> length_less (the pw) 8) \<Longrightarrow>
   users st (to_string (the em)) \<noteq> None \<Longrightarrow>
   signup_begin (Some (Body em pw)) st =
     Responds (fail 409 (Some ''email'') ''Email already registered'')"
  by (simp add: signup_begin_def)

lemma signup_begin_awaits:
  "\<not> (falsy_value em \<or> \<not> test email_re (to_string (the em))) \<Longrightarrow>
   \<not> (falsy_value pw \<or> length_less (the pw) 8) \<Longrightarrow>
   users st (to_string (the em)) = None \<Longrightarrow>
   signup_begin (Some (Body em pw)) st = Awaits (the em, the pw)"
  by (simp add: signup_begin_def)

lemma signup_end_rejected:
  "hash_value lib pw 12 (salt e) = None \<Longrightarrow>
   signup_end lib e em pw st = (fail 500 None ''Server error'', st)"
  by (simp add: signup_end_def)

lemma signup_end_stored:
  "hash_value lib pw 12 (salt e) = Some h \<Longrightarrow>
   signup_end lib e em pw st =
     (\<lparr>status = 200, json_body = Redirect ''/dashboard.html'', cookie = SetSid (createSid e)\<rparr>,
      \<lparr>users = (users st)(to_string em \<mapsto> \<lparr>id_acc = toString (date_now e), email = em,
                                             passwordHash = h, createdAt = iso_string e\<rparr>),
       sessions = (sessions st)(createSid e \<mapsto> em)\<rparr>)"
  by (simp add: signup_end_def Let_def)

lemma signup_end_users:
  "users (snd (signup_end lib e em pw st)) k = Some a \<Longrightarrow>
   users st k = Some a \<or> to_string (email a) = k"
  by (cases "hash_value lib pw 12 (salt e)")
     (auto simp add: signup_end_rejected signup_end_stored split: if_splits)

lemma login_end_users: "users (snd (login_end lib e em pw user st)) = users st"
  by (simp add: login_end_def Let_def split: option.split)

lemma signup_ok:
  assumes "test email_re em" "8 \<le> length pw" "users st em = None"
    and "bcrypt_hash lib pw 12 (salt e) = Some h"
  shows "signup lib e (Some (Body (Some (Str em)) (Some (Str pw)))) st =
         (\<lparr>status = 200, json_body = Redirect ''/dashboard.html'', cookie = SetSid (createSid e)\<rparr>,
          \<lparr>users = (users st)(em \<mapsto> \<lparr>id_acc = toString (date_now e), email = Str em,
                                       passwordHash = h, createdAt = iso_string e\<rparr>),
           sessions = (sessions st)(createSid e \<mapsto> Str em)\<rparr>)"
proof -
  have "em \<noteq> []" using assms(1) test_empty by auto
  moreover have "pw \<noteq> []" using assms(2) by auto
  ultimately have "signup_begin (Some (Body (Some (Str em)) (Some (Str pw)))) st =
      Awaits (Str em, Str pw)"
    using assms by (simp add: signup_begin_def length_less_def)
  moreover have "hash_value lib (Str pw) 12 (salt e) = Some h" using assms(4) by simp
  ultimately show ?thesis
    by (simp add: signup_def signup_end_stored)
qed

lemma signup_responds:
  "signup_begin b st = Responds r \<Longrightarrow> signup lib e b st = (r, st)"
  by (simp add: signup_def)

lemma signup_status_200:
  assumes "status (fst (signup lib e (Some (Body em pw)) st)) = 200"
  shows "\<exists>v p h. em = Some v \<and> pw = Some (Str p) \<and> to_boolean v \<and>
           test email_re (to_string v) \<and> 8 \<le> length p \<and>
           users st (to_string v) = None \<and> bcrypt_hash lib p 12 (salt e) = Some h"
proof -
  have 1: "\<not> (falsy_value em \<or> \<not> test email_re (to_string (the em)))"
  proof
    assume "falsy_value em \<or> \<not> test email_re (to_string (the em))"
    from signup_responds [OF signup_begin_email [OF this]] assms show False
      by (simp add: fail_def)
  qed
  have 2: "\<not> (falsy_value pw \<or> length_less (the pw) 8)"
  proof
    assume "falsy_value pw \<or> length_less (the pw) 8"
    from signup_responds [OF signup_begin_password [OF 1 this]] assms show False
      by (simp add: fail_def)
  qed
  have 3: "users st (to_string (the em)) = None"
  proof (rule ccontr)
    assume "users st (to_string (the em)) \<noteq> None"
    from signup_responds [OF signup_begin_conflict [OF 1 2 this]] assms show False
      by (simp add: fail_def)
  qed
  have run: "signup lib e (Some (Body em pw)) st = signup_end lib e (the em) (the pw) st"
    by (simp add: signup_def signup_begin_awaits [OF 1 2 3])
  have 4: "hash_value lib (the pw) 12 (salt e) \<noteq> None"
  proof
    assume "hash_value lib (the pw) 12 (salt e) = None"
    from signup_end_rejected [OF this] run assms show False
      by (simp add: fail_def)
  qed
  from 1 obtain v where v: "em = Some v" by (cases em) auto
  from 2 obtain w where w: "pw = Some w" by (cases pw) auto
  from 4 w obtain p where p: "w = Str p" by (cases w) auto
  from 1 2 3 4 v w p show ?thesis
    by (auto simp add: length_less_def)
qed

lemma login_missing:
  "falsy_value em \<or> falsy_value pw \<Longrightarrow>
   login lib e (Some (Body em pw)) st = (fail 400 None ''Missing fields'', st)"
  by (simp add: login_def login_begin_def)

lemma login_unknown:
  "\<not> (falsy_value em \<or> falsy_value pw) \<Longrightarrow> users st (to_string (the em)) = None \<Longrightarrow>
   login lib e (Some (Body em pw)) st =
     (fail 401 (Some ''email'') ''Invalid credentials'', st)"
  by (simp add: login_def login_begin_def)

lemma login_known:
  "\<not> (falsy_value em \<or> falsy_value pw) \<Longrightarrow> users st (to_string (the em)) = Some user \<Longrightarrow>
   login lib e (Some (Body em pw)) st = login_end lib e (the em) (the pw) user st"
  by (simp add: login_def login_begin_def)

lemma login_end_accepted:
  "compare_value lib pw (passwordHash user) = Some True \<Longrightarrow>
   login_end lib e em pw user st =
     (\<lparr>status = 200, json_body = Redirect ''/dashboard.html'', cookie = SetSid (createSid e)\<rparr>,
      st\<lparr>sessions := (sessions st)(createSid e \<mapsto> em)\<rparr>)"
  by (simp add: login_end_def Let_def)

lemma login_end_refused:
  "compare_value lib pw (passwordHash user) = Some False \<Longrightarrow>
   login_end lib e em pw user st =
     (fail 401 (Some ''password'') ''Invalid credentials'', st)"
  by (simp add: login_end_def)

lemma login_end_rejected:
  "compare_value lib pw (passwordHash user) = None \<Longrightarrow>
   login_end lib e em pw user st = (fail 500 None ''Server error'', st)"
  by (simp add: login_end_def)

lemma login_strings:
  assumes "em \<noteq> []" and "pw \<noteq> []" and "users st em = Some user"
  shows "login lib e (Some (Body (Some (Str em)) (Some (Str pw)))) st =
         (case bcrypt_compare lib pw (passwordHash user) of
            None \<Rightarrow> (fail 500 None ''Server error'', st)
          | Some ok \<Rightarrow>
              if ok
              then (\<lparr>status = 200, json_body = Redirect ''/dashboard.html'',
                      cookie = SetSid (createSid e)\<rparr>,
                    st\<lparr>sessions := (sessions st)(createSid e \<mapsto> Str em)\<rparr>)
              else (fail 401 (Some ''password'') ''Invalid credentials'', st))"
proof -
  have "login lib e (Some (Body (Some (Str em)) (Some (Str pw)))) st =
        login_end lib e (Str em) (Str pw) user st"
    using assms by (simp add: login_def login_begin_def)
  then show ?thesis
    by (simp add: login_end_def Let_def split: option.split)
qed

lemma login_status_200:
  assumes "em \<noteq> []" and "pw \<noteq> []" and "users st em = Some user"
  shows "(status (fst (login lib e (Some (Body (Some (Str em)) (Some (Str pw)))) st)) = 200) =
         (bcrypt_compare lib pw (passwordHash user) = Some True)"
  unfolding login_strings [OF assms]
  by (cases "bcrypt_compare lib pw (passwordHash user)") (auto simp add: fail_def)

lemma createSid_truthy: "\<not> falsy (Some (createSid e))"
  by (simp add: createSid_def createSid_of_def)

lemma login_unauthenticated:
  assumes "em \<noteq> []" and "pw \<noteq> []"
  shows "(users st em = None \<longrightarrow>
            login lib e (body_of em pw) st =
              (fail 401 (Some ''email'') ''Invalid credentials'', st)) \<and>
         (users st em = Some a \<and> bcrypt_compare lib pw (passwordHash a) = Some False \<longrightarrow>
            login lib e (body_of em pw) st =
              (fail 401 (Some ''password'') ''Invalid credentials'', st))"
  using assms
  by (auto simp add: body_of_def login_unknown login_known login_end_refused)

lemma signup_invalid_strings:
  "signup lib e (Some (Body None pw)) st = (fail 400 (Some ''email'') ''Invalid email'', st) \<and>
   (\<not> test email_re em \<longrightarrow>
      signup lib e (Some (Body (Some (Str em)) pw)) st =
        (fail 400 (Some ''email'') ''Invalid email'', st)) \<and>
   (test email_re em \<longrightarrow>
      signup lib e (Some (Body (Some (Str em)) None)) st =
        (fail 400 (Some ''password'') ''Password too short'', st)) \<and>
   (test email_re em \<and> length p < 8 \<longrightarrow>
      signup lib e (Some (Body (Some (Str em)) (Some (Str p)))) st =
        (fail 400 (Some ''password'') ''Password too short'', st))"
  by (auto simp add: signup_def signup_begin_def length_less_def test_empty)

section \<open>Accounts over time\<close>

text \<open>
  An account is only ever stored under the key that its own email gives, whatever the
  order in which requests arrive and waiting handlers go on. Handling a request with
  nothing in between is one arrival followed by the end of the handler that then waits.
\<close>

lemma arrive_users: "users (stores (arrive r sv)) = users (stores sv)"
proof (cases r)
  case (Signup e b)
  then show ?thesis
    by (cases "signup_begin b (stores sv)") (auto split: prod.split)
next
  case (Login e b)
  then show ?thesis
    by (cases "login_begin b (stores sv)") (auto split: prod.split)
next
  case (Me sid)
  then show ?thesis by (simp add: me_state)
next
  case (Logout sid)
  then show ?thesis by (simp add: logout_users)
qed

lemma resume_users:
  "users (snd (resume lib w st)) k = Some a \<Longrightarrow> users st k = Some a \<or> to_string (email a) = k"
  by (cases w) (auto simp add: login_end_users dest: signup_end_users)

lemma step_users:
  "users (stores (step lib ev sv)) k = Some a \<Longrightarrow>
   users (stores sv) k = Some a \<or> to_string (email a) = k"
proof (cases ev)
  case (Arrives r)
  then show "users (stores (step lib ev sv)) k = Some a \<Longrightarrow> ?thesis"
    by (simp add: arrive_users)
next
  case (Resumes i)
  then show "users (stores (step lib ev sv)) k = Some a \<Longrightarrow> ?thesis"
    by (cases "i < length (pending sv)") (auto dest: resume_users)
qed

lemma run_keyed:
  assumes "\<And>k a. users (stores sv) k = Some a \<Longrightarrow> to_string (email a) = k"
    and "users (stores (run lib evs sv)) k = Some a"
  shows "to_string (email a) = k"
  using assms
proof (induction evs arbitrary: sv)
  case Nil
  then show ?case by simp
next
  case (Cons ev evs)
  show ?case
  proof (rule Cons.IH)
    show "users (stores (run lib evs (step lib ev sv))) k = Some a"
      using Cons.prems(2) by simp
    show "to_string (email a') = k'"
      if "users (stores (step lib ev sv)) k' = Some a'" for k' a'
      using step_users [OF that] Cons.prems(1) by auto
  qed
qed

lemma run_init_keyed:
  "users (stores (run lib evs init_server)) k = Some a \<Longrightarrow> to_string (email a) = k"
  by (rule run_keyed [where sv = init_server]) (simp_all add: init_server_def init_state_def)

lemma uninterrupted:
  "step lib (Resumes (length (pending sv))) (step lib (Arrives r) sv) =
   sv\<lparr>stores := snd (handle lib r (stores sv))\<rparr>"
proof (cases r)
  case (Signup e b)
  then show ?thesis
    by (cases "signup_begin b (stores sv)") (auto simp add: signup_def nth_append)
next
  case (Login e b)
  then show ?thesis
    by (cases "login_begin b (stores sv)") (auto simp add: login_def nth_append)
next
  case (Me sid)
  then show ?thesis by simp
next
  case (Logout sid)
  then show ?thesis by simp
qed

section \<open>The concrete states\<close>

lemma valid_ab: "test email_re (js ''a@b.com'')"
  by (simp add: js_def test_def email_re_def is_space_def)

lemma sid_env1: "createSid env1 = js ''si''"
  by (simp add: createSid_def createSid_of_def env1_def stub_radix36_def js_def)


lemma stub_hash:
  "bcrypt_hash stub_bcrypt d 12 (js ''$2b$12$abc'') = Some (js ''$2b$12$abc'' @ d)"
  "bcrypt_hash stub_bcrypt d 12 (js ''$2b$12$xyz'') = Some (js ''$2b$12$xyz'' @ d)"
  by (simp_all add: stub_bcrypt_def js_def)

lemma stub_compare:
  "bcrypt_compare stub_bcrypt q (js ''$2b$12$abc'' @ d) = Some (q = d)"
  by (auto simp add: stub_bcrypt_def js_def)

lemma one_user_eval:
  "one_user =
     \<lparr>users = [js ''a@b.com'' \<mapsto> \<lparr>id_acc = toString 1700000000000, email = Str (js ''a@b.com''),
        passwordHash = js ''$2b$12$abc'' @ js ''longpassword'',
        createdAt = js ''2023-11-14T22:13:20.000Z''\<rparr>],
      sessions = [js ''si'' \<mapsto> Str (js ''a@b.com'')]\<rparr>"
proof -
  have "8 \<le> length (js ''longpassword'')" by (simp add: js_def)
  moreover have "users init_state (js ''a@b.com'') = None" by (simp add: init_state_def)
  moreover have "bcrypt_hash stub_bcrypt (js ''longpassword'') 12 (salt env1) =
      Some (js ''$2b$12$abc'' @ js ''longpassword'')"
    by (simp add: env1_def stub_hash)
  ultimately show ?thesis
    unfolding one_user_def credentials_def body_of_def
    by (simp add: signup_ok [OF valid_ab] sid_env1) (simp add: env1_def init_state_def)
qed

lemma case_variants_users:
  "users (stores case_variants) =
     [js ''A@b.com'' \<mapsto> \<lparr>id_acc = toString 1700000000000, email = Str (js ''A@b.com''),
        passwordHash = js ''$2b$12$abc'' @ js ''longpassword'',
        createdAt = js ''2023-11-14T22:13:20.000Z''\<rparr>,
      js ''a@b.com'' \<mapsto> \<lparr>id_acc = toString 1700000000500, email = Str (js ''a@b.com''),
        passwordHash = js ''$2b$12$xyz'' @ js ''longpassword'',
        createdAt = js ''2023-11-14T22:13:20.500Z''\<rparr>]"
  by (simp add: case_variants_def credentials_def body_of_def init_server_def init_state_def
      signup_begin_def signup_end_def length_less_def Let_def
      js_def test_def email_re_def is_space_def stub_bcrypt_def env1_def env2_def)

text \<open>
  Two signups for one email that both arrive before either goes on both pass the test of
  line 46; the second to go on replaces the account of the first, and the first
  password no longer logs in.
\<close>

lemma overlapping_signups:
  "users (stores overlapping) =
     [js ''a@b.com'' \<mapsto> \<lparr>id_acc = toString 1700000000500, email = Str (js ''a@b.com''),
        passwordHash = js ''$2b$12$xyz'' @ js ''otherpassword'',
        createdAt = js ''2023-11-14T22:13:20.500Z''\<rparr>]"
  "pending overlapping = []"
  "fst (login stub_bcrypt env1 (credentials ''a@b.com'' ''longpassword'') (stores overlapping)) =
     fail 401 (Some ''password'') ''Invalid credentials''"
proof -
  show u: "users (stores overlapping) =
     [js ''a@b.com'' \<mapsto> \<lparr>id_acc = toString 1700000000500, email = Str (js ''a@b.com''),
        passwordHash = js ''$2b$12$xyz'' @ js ''otherpassword'',
        createdAt = js ''2023-11-14T22:13:20.500Z''\<rparr>]"
    by (simp add: overlapping_def credentials_def body_of_def init_server_def init_state_def
        signup_begin_def signup_end_def length_less_def Let_def
        js_def test_def email_re_def is_space_def stub_bcrypt_def env1_def env2_def)
  show "pending overlapping = []"
    by (simp add: overlapping_def credentials_def body_of_def init_server_def init_state_def
        signup_begin_def signup_end_def length_less_def Let_def
        js_def test_def email_re_def is_space_def stub_bcrypt_def env1_def env2_def)
  have "js ''a@b.com'' \<noteq> []" "js ''longpassword'' \<noteq> []" by (simp_all add: js_def)
  from login_strings [OF this, where st = "stores overlapping" and lib = stub_bcrypt
      and e = env1] u
  show "fst (login stub_bcrypt env1 (credentials ''a@b.com'' ''longpassword'')
      (stores overlapping)) = fail 401 (Some ''password'') ''Invalid credentials''"
    by (simp add: credentials_def body_of_def) (simp add: stub_bcrypt_def js_def)
qed

section \<open>Accounts\<close>

text \<open>
  Claim C1 as stated does not hold: the users store is keyed by the email as it was sent,
  and nothing folds letter case. Starting from the empty stores, signups for
  \<^verbatim>\<open>A@b.com\<close> and \<^verbatim>\<open>a@b.com\<close> both succeed and leave two different accounts whose
  emails are equal after normalization.
\<close>

theorem C1_counterexample:
  "map_option email (users (stores case_variants) (js ''A@b.com'')) = Some (Str (js ''A@b.com'')) \<and>
   map_option email (users (stores case_variants) (js ''a@b.com'')) = Some (Str (js ''a@b.com'')) \<and>
   users (stores case_variants) (js ''A@b.com'') \<noteq> users (stores case_variants) (js ''a@b.com'') \<and>
   spec_normalize (js ''A@b.com'') = spec_normalize (js ''a@b.com'')"
  by (simp add: case_variants_users) (simp add: js_def spec_normalize_def)

text \<open>
  Claim C1, amended. In every state the server can be in, the users store holds at most
  one account per email as sent, code unit for code unit: two stored accounts with the
  same email are the same account under the same key. This holds for every order of
  arrivals and of waiting handlers going on, and for every JSON value sent as email.
\<close>

theorem C1_one_account_per_email:
  assumes "users (stores (run lib evs init_server)) k1 = Some a1"
    and "users (stores (run lib evs init_server)) k2 = Some a2"
    and "email a1 = email a2"
  shows "k1 = k2 \<and> a1 = a2"
proof -
  from assms(1,2) have "to_string (email a1) = k1" "to_string (email a2) = k2"
    by (auto dest: run_init_keyed)
  with assms show ?thesis by auto
qed

theorem C1_witness:
  "users (stores case_variants) (js ''a@b.com'') =
     Some \<lparr>id_acc = toString 1700000000500, email = Str (js ''a@b.com''),
        passwordHash = js ''$2b$12$xyz'' @ js ''longpassword'',
        createdAt = js ''2023-11-14T22:13:20.500Z''\<rparr> \<and>
   js ''a@b.com'' = js ''a@b.com''"
proof -
  let ?a = "\<lparr>id_acc = toString 1700000000500, email = Str (js ''a@b.com''),
        passwordHash = js ''$2b$12$xyz'' @ js ''longpassword'',
        createdAt = js ''2023-11-14T22:13:20.500Z''\<rparr>"
  have u: "users (stores case_variants) (js ''a@b.com'') = Some ?a"
    by (simp add: case_variants_users)
  from C1_one_account_per_email [OF u [unfolded case_variants_def] u [unfolded case_variants_def]] u
  show ?thesis by simp
qed



text \<open>
  Claim C4. After a first signup that answered with status 200 and stored the hash \<open>h\<close>
  of its password, a second signup for the same email with a password of at least 8 code
  units, in the state the first left or in any later state \<open>st'\<close> in which the account
  is still the one it stored, is answered with status 409
  \<^verbatim>\<open>Email already registered\<close> and leaves the stores as they were. The account still
  holds \<open>h\<close>, and a login after the failed call succeeds for exactly the passwords that
  \<^verbatim>\<open>bcrypt.compare\<close> accepts against \<open>h\<close>: when the library accepts only the first
  password against its hash, only the first password logs in.
\<close>

theorem C4_duplicate_signup:
  assumes "signup lib e1 (body_of em pw1) st = (r1, st1)" and "status r1 = 200"
    and "bcrypt_hash lib pw1 12 (salt e1) = Some h" and "8 \<le> length pw2"
    and "users st' em = users st1 em"
  shows "signup lib e' (body_of em pw2) st' =
           (fail 409 (Some ''email'') ''Email already registered'', st') \<and>
         map_option passwordHash (users (snd (signup lib e' (body_of em pw2) st')) em) = Some h \<and>
         (p \<noteq> [] \<longrightarrow>
            (status (fst (login lib e'' (body_of em p) (snd (signup lib e' (body_of em pw2) st')))) =
               200) =
            (bcrypt_compare lib p h = Some True)) \<and>
         ((\<forall>q. bcrypt_compare lib q h = Some (q = pw1)) \<and> p \<noteq> [] \<longrightarrow>
            (status (fst (login lib e'' (body_of em p) (snd (signup lib e' (body_of em pw2) st')))) =
               200) =
            (p = pw1))"
proof -
  let ?acc = "\<lparr>id_acc = toString (date_now e1), email = Str em, passwordHash = h,
               createdAt = iso_string e1\<rparr>"
  from assms(1,2)
  have "status (fst (signup lib e1 (Some (Body (Some (Str em)) (Some (Str pw1)))) st)) = 200"
    by (simp add: body_of_def)
  from signup_status_200 [OF this] obtain h' where
    v: "test email_re em" and l: "8 \<le> length pw1" and u: "users st em = None"
    and h': "bcrypt_hash lib pw1 12 (salt e1) = Some h'" by auto
  from h' assms(3) have "h' = h" by simp
  with signup_ok [OF v l u h', folded body_of_def] assms(1)
  have "users st1 em = Some ?acc" by auto
  with assms(5) have stored: "users st' em = Some ?acc" by simp
  have ne: "em \<noteq> []" using v test_empty by auto
  have "pw2 \<noteq> []" using assms(4) by auto
  with ne v assms(4) stored
  have "signup_begin (body_of em pw2) st' =
      Responds (fail 409 (Some ''email'') ''Email already registered'')"
    by (simp add: body_of_def signup_begin_def length_less_def)
  then have dup: "signup lib e' (body_of em pw2) st' =
      (fail 409 (Some ''email'') ''Email already registered'', st')"
    by (rule signup_responds)
  have ver: "(status (fst (login lib e'' (body_of em p) st')) = 200) =
      (bcrypt_compare lib p h = Some True)" if "p \<noteq> []"
    using login_status_200 [OF ne that stored, folded body_of_def] by simp
  show ?thesis
    using dup stored ver by auto
qed

theorem C4_witness:
  "signup stub_bcrypt env2 (credentials ''a@b.com'' ''otherpassword'') one_user =
     (fail 409 (Some ''email'') ''Email already registered'', one_user) \<and>
   status (fst (login stub_bcrypt env2 (credentials ''a@b.com'' ''longpassword'') one_user)) = 200 \<and>
   status (fst (login stub_bcrypt env2 (credentials ''a@b.com'' ''otherpassword'') one_user)) \<noteq> 200"
proof -
  have 1: "signup stub_bcrypt env1 (body_of (js ''a@b.com'') (js ''longpassword'')) init_state =
      (\<lparr>status = 200, json_body = Redirect ''/dashboard.html'', cookie = SetSid (js ''si'')\<rparr>,
       one_user)"
  proof -
    have "8 \<le> length (js ''longpassword'')" by (simp add: js_def)
    moreover have "users init_state (js ''a@b.com'') = None" by (simp add: init_state_def)
    moreover have "bcrypt_hash stub_bcrypt (js ''longpassword'') 12 (salt env1) =
        Some (js ''$2b$12$abc'' @ js ''longpassword'')"
      by (simp add: env1_def stub_hash)
    ultimately show ?thesis
      unfolding one_user_def credentials_def body_of_def
      by (simp add: signup_ok [OF valid_ab] sid_env1)
  qed
  have 2: "status \<lparr>status = 200, json_body = Redirect ''/dashboard.html'',
      cookie = SetSid (js ''si'')\<rparr> = 200" by simp
  have 3: "bcrypt_hash stub_bcrypt (js ''longpassword'') 12 (salt env1) =
      Some (js ''$2b$12$abc'' @ js ''longpassword'')"
    by (simp add: env1_def stub_hash)
  have 4: "8 \<le> length (js ''otherpassword'')" by (simp add: js_def)
  have 5: "\<forall>q. bcrypt_compare stub_bcrypt q (js ''$2b$12$abc'' @ js ''longpassword'') =
      Some (q = js ''longpassword'')"
    by (simp add: stub_compare)
  have 6: "js ''longpassword'' \<noteq> []" "js ''otherpassword'' \<noteq> []"
    "js ''otherpassword'' \<noteq> js ''longpassword''"
    by (simp_all add: js_def)
  note first = C4_duplicate_signup [OF 1 2 3 4 refl, where p = "js ''longpassword''"
      and e' = env2 and e'' = env2]
  note other = C4_duplicate_signup [OF 1 2 3 4 refl, where p = "js ''otherpassword''"
      and e' = env2 and e'' = env2]
  from first have dup:
    "signup stub_bcrypt env2 (body_of (js ''a@b.com'') (js ''otherpassword'')) one_user =
       (fail 409 (Some ''email'') ''Email already registered'', one_user)"
    by simp
  from first 5 6 have
    "status (fst (login stub_bcrypt env2 (body_of (js ''a@b.com'') (js ''longpassword''))
       one_user)) = 200"
    by (simp add: dup)
  moreover from other 5 6 have
    "status (fst (login stub_bcrypt env2 (body_of (js ''a@b.com'') (js ''otherpassword''))
       one_user)) \<noteq> 200"
    by (simp add: dup)
  ultimately show ?thesis
    using dup by (simp add: credentials_def)
qed

section \<open>Login failures\<close>

text \<open>
  Claim C2 does not hold of \<^verbatim>\<open>/api/login\<close>. With an account for \<^verbatim>\<open>a@b.com\<close>, a login
  with a wrong password and a login for \<^verbatim>\<open>x@y.com\<close>, which has no account, are both
  answered with status 401 and the message \<^verbatim>\<open>Invalid credentials\<close>, but the first
  response carries the field \<^verbatim>\<open>password\<close> and the second the field \<^verbatim>\<open>email\<close>: the
  two responses differ. A login for \<^verbatim>\<open>a@b.com\<close> with the number 123 as password is
  answered with status 500.
\<close>

theorem C2_login_failures_differ:
  "users one_user (js ''a@b.com'') \<noteq> None \<and> users one_user (js ''x@y.com'') = None \<and>
   login stub_bcrypt env2 (credentials ''a@b.com'' ''wrongpassword'') one_user =
     (fail 401 (Some ''password'') ''Invalid credentials'', one_user) \<and>
   login stub_bcrypt env2 (credentials ''x@y.com'' ''wrongpassword'') one_user =
     (fail 401 (Some ''email'') ''Invalid credentials'', one_user) \<and>
   fst (login stub_bcrypt env2 (credentials ''a@b.com'' ''wrongpassword'') one_user) \<noteq>
   fst (login stub_bcrypt env2 (credentials ''x@y.com'' ''wrongpassword'') one_user) \<and>
   login stub_bcrypt env2 (Some (Body (Some (Str (js ''a@b.com''))) (Some (Num 123)))) one_user =
     (fail 500 None ''Server error'', one_user)"
proof -
  let ?a = "\<lparr>id_acc = toString 1700000000000, email = Str (js ''a@b.com''),
        passwordHash = js ''$2b$12$abc'' @ js ''longpassword'',
        createdAt = js ''2023-11-14T22:13:20.000Z''\<rparr>"
  have 1: "js ''a@b.com'' \<noteq> []" "js ''x@y.com'' \<noteq> []" "js ''wrongpassword'' \<noteq> []"
    by (simp_all add: js_def)
  have 2: "users one_user (js ''a@b.com'') = Some ?a" "users one_user (js ''x@y.com'') = None"
    by (simp_all add: one_user_eval) (simp add: js_def)
  have 3: "bcrypt_compare stub_bcrypt (js ''wrongpassword'') (passwordHash ?a) = Some False"
    by (simp add: stub_compare) (simp add: js_def)
  have 4: "login stub_bcrypt env2 (credentials ''a@b.com'' ''wrongpassword'') one_user =
     (fail 401 (Some ''password'') ''Invalid credentials'', one_user)"
    using login_unauthenticated [OF 1(1) 1(3), where st = one_user and a = ?a
        and lib = stub_bcrypt and e = env2] 2 3
    by (simp add: credentials_def)
  have 5: "login stub_bcrypt env2 (credentials ''x@y.com'' ''wrongpassword'') one_user =
     (fail 401 (Some ''email'') ''Invalid credentials'', one_user)"
    using login_unauthenticated [OF 1(2) 1(3), where st = one_user and a = ?a
        and lib = stub_bcrypt and e = env2] 2
    by (simp add: credentials_def)
  have 6: "login stub_bcrypt env2 (Some (Body (Some (Str (js ''a@b.com''))) (Some (Num 123))))
      one_user = (fail 500 None ''Server error'', one_user)"
    using 1(1) 2(1) by (simp add: login_def login_begin_def login_end_def)
  show ?thesis
    unfolding 4 5 6 using 2 by (simp add: fail_def)
qed

theorem C2_witness:
  "fst (login stub_bcrypt env2 (credentials ''a@b.com'' ''wrongpassword'') one_user) \<noteq>
   fst (login stub_bcrypt env2 (credentials ''x@y.com'' ''wrongpassword'') one_user)"
  using C2_login_failures_differ by blast

section \<open>Session ids\<close>

text \<open>
  Claim C5 does not hold of \<^verbatim>\<open>createSid\<close>. A session id is a function of the one double
  that \<^verbatim>\<open>Math.random()\<close> returns, so an engine gives at most \<open>2 ^ 64\<close> session ids,
  fewer than \<open>2 ^ 128\<close>, whatever its printing in radix 36 is. The double 0.5 gives the
  session id \<^verbatim>\<open>si\<close>.
\<close>

theorem C5_token_space:
  "card (range (createSid_of print)) \<le> 2 ^ 64 \<and>
   \<not> 2 ^ 128 \<le> card (range (createSid_of print)) \<and>
   card (createSid ` {e. radix36 e = print}) \<le> 2 ^ 64 \<and>
   \<not> 2 ^ 128 \<le> card (createSid ` {e. radix36 e = print})"
proof -
  have "card (range (createSid_of print)) \<le> card (UNIV :: 64 word set)"
    by (rule card_image_le) simp
  also have "card (UNIV :: 64 word set) = 2 ^ 64"
    by (simp add: card_word)
  finally have le: "card (range (createSid_of print)) \<le> 2 ^ 64" .
  have "createSid ` {e. radix36 e = print} \<subseteq> range (createSid_of print)"
    by (auto simp add: createSid_def)
  then have "card (createSid ` {e. radix36 e = print}) \<le> card (range (createSid_of print))"
    by (rule card_mono [rotated]) simp
  with le have le': "card (createSid ` {e. radix36 e = print}) \<le> 2 ^ 64" by simp
  have "(2::nat) ^ 64 < 2 ^ 128" by simp
  with le le' show ?thesis by linarith
qed

theorem C5_witness:
  "card (range (createSid_of stub_radix36)) \<le> 2 ^ 64 \<and>
   \<not> 2 ^ 128 \<le> card (range (createSid_of stub_radix36)) \<and>
   createSid_of stub_radix36 0x3FE0000000000000 = js ''si''"
  using C5_token_space [of stub_radix36]
  by (simp add: createSid_of_def stub_radix36_def js_def)

section \<open>Validation of the input\<close>

text \<open>
  Claim C6 does not hold for every body. With the valid email \<^verbatim>\<open>a@b.com\<close> and the
  number 123, \<^verbatim>\<open>true\<close> or an object as password, \<^verbatim>\<open>password.length < 8\<close> is false,
  \<^verbatim>\<open>bcrypt.hash\<close> rejects the value and signup answers with status 500
  \<^verbatim>\<open>Server error\<close> instead of status 400 and field \<^verbatim>\<open>password\<close>. With the array
  \<^verbatim>\<open>['q@b.com']\<close> as email, signup answers with status 200 and stores an account whose
  email is the array. For strings the validation is as claimed
  (\<open>signup_invalid_strings\<close>).
\<close>

theorem C6_unvalidated_input:
  "signup stub_bcrypt env1 (Some (Body (Some (Str (js ''a@b.com''))) (Some (Num 123))))
     init_state = (fail 500 None ''Server error'', init_state) \<and>
   signup stub_bcrypt env1 (Some (Body (Some (Str (js ''a@b.com''))) (Some (Bool True))))
     init_state = (fail 500 None ''Server error'', init_state) \<and>
   signup stub_bcrypt env1 (Some (Body (Some (Str (js ''a@b.com''))) (Some Obj)))
     init_state = (fail 500 None ''Server error'', init_state) \<and>
   status (fst (signup stub_bcrypt env1
     (Some (Body (Some (Arr [Str (js ''q@b.com'')])) (Some (Str (js ''longpassword'')))))
     init_state)) = 200 \<and>
   map_option email (users (snd (signup stub_bcrypt env1
     (Some (Body (Some (Arr [Str (js ''q@b.com'')])) (Some (Str (js ''longpassword'')))))
     init_state)) (js ''q@b.com'')) = Some (Arr [Str (js ''q@b.com'')])"
proof -
  have v: "\<not> (falsy_value (Some (Str (js ''a@b.com''))) \<or>
      \<not> test email_re (to_string (the (Some (Str (js ''a@b.com''))))))"
    using valid_ab test_empty by auto
  have u: "users init_state (to_string (the (Some (Str (js ''a@b.com''))))) = None"
    by (simp add: init_state_def)
  have bad: "signup stub_bcrypt env1 (Some (Body (Some (Str (js ''a@b.com''))) (Some w)))
      init_state = (fail 500 None ''Server error'', init_state)"
    if "to_boolean w" "length_of w = None" for w
  proof -
    have "\<not> (falsy_value (Some w) \<or> length_less (the (Some w)) 8)"
      using that by (simp add: length_less_def)
    from signup_begin_awaits [OF v this u]
    have "signup stub_bcrypt env1 (Some (Body (Some (Str (js ''a@b.com''))) (Some w)))
        init_state = signup_end stub_bcrypt env1 (Str (js ''a@b.com'')) w init_state"
      by (simp add: signup_def)
    moreover have "hash_value stub_bcrypt w 12 (salt env1) = None"
      using that(2) by (cases w) simp_all
    ultimately show ?thesis by (simp add: signup_end_rejected)
  qed
  have arr: "signup stub_bcrypt env1
     (Some (Body (Some (Arr [Str (js ''q@b.com'')])) (Some (Str (js ''longpassword'')))))
     init_state =
     (\<lparr>status = 200, json_body = Redirect ''/dashboard.html'', cookie = SetSid (js ''si'')\<rparr>,
      \<lparr>users = [js ''q@b.com'' \<mapsto> \<lparr>id_acc = toString 1700000000000,
          email = Arr [Str (js ''q@b.com'')],
          passwordHash = js ''$2b$12$abc'' @ js ''longpassword'',
          createdAt = js ''2023-11-14T22:13:20.000Z''\<rparr>],
       sessions = [js ''si'' \<mapsto> Arr [Str (js ''q@b.com'')]]\<rparr>)"
  proof -
    have "test email_re (js ''q@b.com'')"
      by (simp add: js_def test_def email_re_def is_space_def)
    then have "signup_begin
        (Some (Body (Some (Arr [Str (js ''q@b.com'')])) (Some (Str (js ''longpassword'')))))
        init_state = Awaits (Arr [Str (js ''q@b.com'')], Str (js ''longpassword''))"
      by (simp add: signup_begin_def length_less_def init_state_def) (simp add: js_def)
    moreover have "hash_value stub_bcrypt (Str (js ''longpassword'')) 12 (salt env1) =
        Some (js ''$2b$12$abc'' @ js ''longpassword'')"
      by (simp add: env1_def stub_hash)
    ultimately show ?thesis
      by (simp add: signup_def signup_end_stored sid_env1) (simp add: env1_def init_state_def)
  qed
  show ?thesis
    by (simp add: bad arr)
qed

theorem C6_witness:
  "status (fst (signup stub_bcrypt env1
     (Some (Body (Some (Str (js ''a@b.com''))) (Some (Num 123)))) init_state)) = 500"
  using C6_unvalidated_input by (simp add: fail_def)

text \<open>
  Claim C10. A request without a body, or with a body that has neither \<^verbatim>\<open>email\<close> nor
  \<^verbatim>\<open>password\<close>, is answered with status 400 by both \<^verbatim>\<open>/api/signup\<close> (field
  \<^verbatim>\<open>email\<close>) and \<^verbatim>\<open>/api/login\<close> (\<^verbatim>\<open>Missing fields\<close>); the handlers return a response
  for it and leave the users and the sessions store as they were.
\<close>

theorem C10_absent_body:
  "signup lib e None st = (fail 400 (Some ''email'') ''Invalid email'', st) \<and>
   signup lib e (Some (Body None None)) st = (fail 400 (Some ''email'') ''Invalid email'', st) \<and>
   login lib e None st = (fail 400 None ''Missing fields'', st) \<and>
   login lib e (Some (Body None None)) st = (fail 400 None ''Missing fields'', st)"
  by (simp add: signup_def signup_begin_def login_def login_begin_def)

theorem C10_witness:
  "signup stub_bcrypt env1 None one_user = (fail 400 (Some ''email'') ''Invalid email'', one_user) \<and>
   login stub_bcrypt env1 None one_user = (fail 400 None ''Missing fields'', one_user)"
  using C10_absent_body [of stub_bcrypt env1 one_user] by simp

section \<open>Sessions\<close>

text \<open>
  Claim C7. When signup answers with status 200 (which it only does for an accepted email
  without an account and a password of at least 8 code units), the response sets the
  cookie \<^verbatim>\<open>sid\<close>, and \<^verbatim>\<open>/api/me\<close> called next with that cookie answers with status
  200, the email given to signup and the id of the account that signup stored.
\<close>

theorem C7_signup_then_me:
  assumes "status (fst (signup lib e (Some (Body (Some em) (Some pw))) st)) = 200"
  shows "cookie (fst (signup lib e (Some (Body (Some em) (Some pw))) st)) = SetSid (createSid e) \<and>
         me (Some (createSid e)) (snd (signup lib e (Some (Body (Some em) (Some pw))) st)) =
           (\<lparr>status = 200, json_body = Identity em (toString (date_now e)), cookie = Keep\<rparr>,
            snd (signup lib e (Some (Body (Some em) (Some pw))) st)) \<and>
         map_option id_acc
           (users (snd (signup lib e (Some (Body (Some em) (Some pw))) st)) (to_string em)) =
           Some (toString (date_now e))"
proof -
  from signup_status_200 [OF assms] obtain p h where
    t: "to_boolean em" and v: "test email_re (to_string em)" and p: "pw = Str p"
    and l: "8 \<le> length p" and u: "users st (to_string em) = None"
    and h: "bcrypt_hash lib p 12 (salt e) = Some h" by auto
  have "p \<noteq> []" using l by auto
  with t v l u p have "signup_begin (Some (Body (Some em) (Some pw))) st = Awaits (em, pw)"
    by (simp add: signup_begin_def length_less_def)
  moreover have "hash_value lib pw 12 (salt e) = Some h" using p h by simp
  ultimately have "signup lib e (Some (Body (Some em) (Some pw))) st =
     (\<lparr>status = 200, json_body = Redirect ''/dashboard.html'', cookie = SetSid (createSid e)\<rparr>,
      \<lparr>users = (users st)(to_string em \<mapsto> \<lparr>id_acc = toString (date_now e), email = em,
                                             passwordHash = h, createdAt = iso_string e\<rparr>),
       sessions = (sessions st)(createSid e \<mapsto> em)\<rparr>)"
    by (simp add: signup_def signup_end_stored)
  with t createSid_truthy [of e] show ?thesis
    by (simp add: me_def)
qed

theorem C7_witness:
  "status (fst (signup stub_bcrypt env1 (credentials ''a@b.com'' ''longpassword'') init_state)) = 200 \<and>
   cookie (fst (signup stub_bcrypt env1 (credentials ''a@b.com'' ''longpassword'') init_state)) =
     SetSid (js ''si'') \<and>
   fst (me (Some (js ''si''))
     (snd (signup stub_bcrypt env1 (credentials ''a@b.com'' ''longpassword'') init_state))) =
     \<lparr>status = 200, json_body = Identity (Str (js ''a@b.com'')) (js ''1700000000000''),
        cookie = Keep\<rparr>"
proof -
  have run: "signup stub_bcrypt env1
      (Some (Body (Some (Str (js ''a@b.com''))) (Some (Str (js ''longpassword''))))) init_state =
      (\<lparr>status = 200, json_body = Redirect ''/dashboard.html'', cookie = SetSid (js ''si'')\<rparr>,
       one_user)"
  proof -
    have "8 \<le> length (js ''longpassword'')" by (simp add: js_def)
    moreover have "users init_state (js ''a@b.com'') = None" by (simp add: init_state_def)
    moreover have "bcrypt_hash stub_bcrypt (js ''longpassword'') 12 (salt env1) =
        Some (js ''$2b$12$abc'' @ js ''longpassword'')"
      by (simp add: env1_def stub_hash)
    ultimately show ?thesis
      unfolding one_user_def credentials_def body_of_def
      by (simp add: signup_ok [OF valid_ab] sid_env1)
  qed
  then have ok: "status (fst (signup stub_bcrypt env1
      (Some (Body (Some (Str (js ''a@b.com''))) (Some (Str (js ''longpassword''))))) init_state)) =
      200"
    by simp
  have id: "toString (date_now env1) = js ''1700000000000''"
    by (simp add: env1_def js_def toString.simps)
  from C7_signup_then_me [OF ok] ok show ?thesis
    by (simp add: credentials_def body_of_def id sid_env1)
qed





end
